theory Spec2Isabelle
  imports Complex_Main "HOL-Library.Multiset" "HOL-Library.AList" "HOL-Library.Sublist"
begin

section \<open>Python values and errors\<close>

text \<open>
  The exceptions that the modelled code can raise. Every function that can raise returns
  a value of \<open>error + 'a\<close>, with \<open>Inl\<close> the exception.
\<close>

datatype error = KeyError | TypeError | IndexError | ValueError | AttributeError

section \<open>models/tables.py: DatetimeTable\<close>

text \<open>
  Timestamps (\<open>datetime\<close>) are exact numbers of seconds. \<open>content\<close> is the Python dict
  in insertion order, \<open>dates\<close> the list of parsed dates, \<open>max_error\<close> the tolerance in
  seconds. The keys of \<open>content\<close> are the raw \<open>"date"\<close> fields (type \<open>'k\<close>), the elements
  of \<open>dates\<close> are what \<open>parse_datetime\<close> makes of them (type \<open>'d\<close>). The lookup reads
  \<open>content\<close> at an element of \<open>dates\<close>, so there keys and dates are of one type.
\<close>

record ('k, 'd, 'r) DatetimeTable =
  content :: "('k \<times> 'r) list"
  dates :: "'d list"
  max_error :: real

text \<open>
  A key of \<open>content\<close> as Python compares it: the string of the \<open>"date"\<close> field of a JSON
  record, or a \<open>datetime\<close>. A string is never equal to a \<open>datetime\<close>.
\<close>

datatype date_key = DateStr string | DateTime real

text \<open>
  The dict comprehension \<open>{item["date"]: item for item in self.get_content()}\<close>:
  a later item with the same key replaces the value and keeps the key's position;
  an item without a \<open>"date"\<close> field (\<open>date_of item = None\<close>) raises \<open>KeyError\<close>.
\<close>

fun build_content :: "('r \<Rightarrow> 'k option) \<Rightarrow> 'r list \<Rightarrow> ('k \<times> 'r) list \<Rightarrow> error + ('k \<times> 'r) list" where
  "build_content date_of [] acc = Inr acc"
| "build_content date_of (item # items) acc =
     (case date_of item of
        None \<Rightarrow> Inl KeyError
      | Some d \<Rightarrow> build_content date_of items (AList.update d item acc))"

text \<open>
  The list comprehension \<open>[parse_datetime(date) for date in self.content]\<close>.
  \<open>parse_datetime\<close> (of \<open>pyhodl.utils\<close>) is a parameter; \<open>None\<close> is a date it rejects.
\<close>

fun parse_dates :: "('k \<Rightarrow> 'd option) \<Rightarrow> 'k list \<Rightarrow> error + 'd list" where
  "parse_dates parse_datetime [] = Inr []"
| "parse_dates parse_datetime (k # ks) =
     (case parse_datetime k of
        None \<Rightarrow> Inl ValueError
      | Some d \<Rightarrow> (case parse_dates parse_datetime ks of
                     Inl e \<Rightarrow> Inl e
                   | Inr ds \<Rightarrow> Inr (d # ds)))"

definition DatetimeTable_init ::
  "('k \<Rightarrow> 'd::linorder option) \<Rightarrow> ('r \<Rightarrow> 'k option) \<Rightarrow> 'r list \<Rightarrow> real
     \<Rightarrow> error + ('k, 'd, 'r) DatetimeTable" where
  "DatetimeTable_init parse_datetime date_of items max_error_search =
     (case build_content date_of items [] of
        Inl e \<Rightarrow> Inl e
      | Inr c \<Rightarrow>
          (case parse_dates parse_datetime (map fst c) of
             Inl e \<Rightarrow> Inl e
           | Inr ds \<Rightarrow>
               Inr \<lparr>content = c, dates = sort ds, max_error = max_error_search\<rparr>))"

text \<open>
  \<open>bisect.bisect\<close> (that is \<open>bisect_right\<close>) of the standard library, as its loop:
  \<^verbatim>\<open>
  while lo < hi:
      mid = (lo + hi) // 2
      if x < a[mid]: hi = mid
      else: lo = mid + 1
  return lo
  \<close>
\<close>

function bisect_loop :: "'a::linorder list \<Rightarrow> 'a \<Rightarrow> nat \<Rightarrow> nat \<Rightarrow> nat" where
  "bisect_loop a x lo hi =
     (if lo < hi then
        (let mid = (lo + hi) div 2 in
         if x < a ! mid then bisect_loop a x lo mid
         else bisect_loop a x (mid + 1) hi)
      else lo)"
  by pat_completeness auto
termination
  by (relation "measure (\<lambda>(a, x, lo, hi). hi - lo)") auto

declare bisect_loop.simps [simp del]

definition bisect :: "'a::linorder list \<Rightarrow> 'a \<Rightarrow> nat" where
  "bisect a x = bisect_loop a x 0 (length a)"

text \<open>A float that may be \<open>float("inf")\<close>, with the two comparisons the lookup makes.\<close>

datatype err = Finite real | Infinity

fun err_le :: "err \<Rightarrow> err \<Rightarrow> bool" where
  "err_le (Finite a) (Finite b) = (a \<le> b)"
| "err_le (Finite a) Infinity = True"
| "err_le Infinity (Finite b) = False"
| "err_le Infinity Infinity = True"

fun err_less_max :: "err \<Rightarrow> real \<Rightarrow> bool" where
  "err_less_max (Finite a) m = (a < m)"
| "err_less_max Infinity m = False"

text \<open>\<open>self.content[key]\<close> where \<open>key\<close> is a date or \<open>None\<close>.\<close>

definition content_getitem :: "('k \<times> 'r) list \<Rightarrow> 'k option \<Rightarrow> error + 'r option" where
  "content_getitem c key =
     (case key of
        None \<Rightarrow> Inl KeyError
      | Some k \<Rightarrow> (case map_of c k of None \<Rightarrow> Inl KeyError | Some r \<Rightarrow> Inr (Some r)))"

text \<open>
  \<open>get_values_on\<close>, line by line. \<open>low\<close> and \<open>high\<close> are first indices, then dates or
  \<open>None\<close>. The test for \<open>err_high\<close> is on \<open>low\<close>, as in the source; \<open>high - dt\<close> with
  \<open>high = None\<close> raises \<open>TypeError\<close>. The result \<open>Inr None\<close> is the source's \<open>return None\<close>.
\<close>

definition get_values_on :: "(real, real, 'r) DatetimeTable \<Rightarrow> real \<Rightarrow> error + 'r option" where
  "get_values_on T dt =
     (let bisect_insert = bisect (dates T) dt;
          low_i = int bisect_insert - 1;
          high_i = int bisect_insert;
          low = (if low_i > 0 then Some (dates T ! nat low_i) else None);
          high = (if high_i < int (length (dates T)) then Some (dates T ! nat high_i) else None);
          err_low = (case low of Some l \<Rightarrow> Finite (dt - l) | None \<Rightarrow> Infinity)
      in case (case low of
                 Some l \<Rightarrow> (case high of Some h \<Rightarrow> Inr (Finite (h - dt)) | None \<Rightarrow> Inl TypeError)
               | None \<Rightarrow> Inr Infinity) of
           Inl e \<Rightarrow> Inl e
         | Inr err_high \<Rightarrow>
             if err_le err_low err_high \<and> err_less_max err_low (max_error T)
             then content_getitem (content T) low
             else if err_le err_high err_low \<and> err_less_max err_high (max_error T)
             then content_getitem (content T) high
             else Inr None)"

section \<open>core/models/exchanges.py: Portfolio.get_balances_from_deltas\<close>

text \<open>
  Modelled from the spec: the constants \<open>NAN\<close>, \<open>DATE_TIME_KEY\<close> and \<open>VALUE_KEY\<close> (of
  \<open>pyhodl.config\<close>), whose source is not part of the files at hand. A delta is the dict
  \<open>{DATE_TIME_KEY: date, VALUE_KEY: value}\<close>; its value is a number or \<open>NAN\<close>, the marker
  for an unknown amount, which is no number. Numbers are exact (reals).
\<close>

datatype delta_value = Known real | NAN

record 'd delta =
  delta_date :: 'd
  delta_value :: delta_value

text \<open>
  \<open>balances[-1][VALUE_KEY] + delta[VALUE_KEY]\<close>: the sum of two numbers, exact (the
  rounding of the addition of floats is not modelled); the marker is not a number, and
  adding it raises \<open>TypeError\<close>.
\<close>

fun add_value :: "delta_value \<Rightarrow> delta_value \<Rightarrow> error + delta_value" where
  "add_value (Known a) (Known b) = Inr (Known (a + b))"
| "add_value _ _ = Inl TypeError"

text \<open>
  The loop \<open>for delta in deltas[1:]: balances.append(...)\<close>, with \<open>balances\<close> as its
  state; \<open>balances[-1]\<close> is \<open>last balances\<close> (the list is never empty there).
\<close>

fun accumulate :: "'d delta list \<Rightarrow> 'd delta list \<Rightarrow> error + 'd delta list" where
  "accumulate balances [] = Inr balances"
| "accumulate balances (d # ds) =
     (case add_value (delta_value (last balances)) (delta_value d) of
        Inl e \<Rightarrow> Inl e
      | Inr v \<Rightarrow> accumulate (balances @ [\<lparr>delta_date = delta_date d, delta_value = v\<rparr>]) ds)"

text \<open>
  \<open>sorted(..., key=...)\<close> is stable, as \<open>sort_key\<close> is. \<open>deltas[0]\<close> on the empty list
  raises \<open>IndexError\<close>.
\<close>

definition get_balances_from_deltas :: "('d::linorder) delta list \<Rightarrow> error + 'd delta list" where
  "get_balances_from_deltas deltas =
     (if deltas = [] then Inr []
      else
        (let deltas' = sort_key delta_date (filter (\<lambda>d. delta_value d \<noteq> NAN) deltas)
         in case deltas' of
              [] \<Rightarrow> Inl IndexError
            | d0 # rest \<Rightarrow> accumulate [d0] rest))"

section \<open>core/models/exchanges.py: CryptoExchange\<close>

text \<open>
  Modelled from the spec: the classes \<open>Transaction\<close> (of \<open>pyhodl.models.transactions\<close>)
  and \<open>Wallet\<close> (of \<open>pyhodl.core.models.wallets\<close>), whose sources are not part of the
  files at hand. A canonical transaction carries buy and sell coin/amount pairs, a date and
  a success flag; \<open>get_coins()\<close> is the set of the non-null coin symbols it touches, here
  a list without duplicates. A wallet is a base currency and the sequence of its
  transactions in insertion order; \<open>add_transaction\<close> appends.
\<close>

record transaction =
  buy_coin :: "string option"
  buy_amount :: real
  sell_coin :: "string option"
  sell_amount :: real
  date :: real
  successful :: bool

definition get_coins :: "transaction \<Rightarrow> string list" where
  "get_coins t =
     (case (buy_coin t, sell_coin t) of
        (Some b, Some s) \<Rightarrow> (if b = s then [b] else [b, s])
      | (Some b, None) \<Rightarrow> [b]
      | (None, Some s) \<Rightarrow> [s]
      | (None, None) \<Rightarrow> [])"

record wallet =
  base_currency :: string
  transactions :: "transaction list"

definition Wallet_init :: "string \<Rightarrow> wallet" where
  "Wallet_init coin = \<lparr>base_currency = coin, transactions = []\<rparr>"

definition add_transaction :: "wallet \<Rightarrow> transaction \<Rightarrow> wallet" where
  "add_transaction w t = w\<lparr>transactions := transactions w @ [t]\<rparr>"

record CryptoExchange =
  exchange_transactions :: "transaction list"
  exchange_name :: string

definition CryptoExchange_init :: "transaction list \<Rightarrow> string \<Rightarrow> error + CryptoExchange" where
  "CryptoExchange_init txs name =
     (if txs = [] then Inl ValueError
      else Inr \<lparr>exchange_transactions = txs, exchange_name = name\<rparr>)"

definition get_transactions :: "CryptoExchange \<Rightarrow> (transaction \<Rightarrow> bool) \<Rightarrow> transaction list" where
  "get_transactions ex rule = filter rule (exchange_transactions ex)"

text \<open>
  The inner loop of \<open>build_wallets\<close> over the coins of one transaction: a coin not yet
  in \<open>wallets\<close> gets a new wallet, then the transaction is added to the coin's wallet.
\<close>

fun add_to_wallets :: "transaction \<Rightarrow> string list \<Rightarrow> (string \<rightharpoonup> wallet) \<Rightarrow> (string \<rightharpoonup> wallet)" where
  "add_to_wallets t [] wallets = wallets"
| "add_to_wallets t (coin # coins) wallets =
     (let w = (case wallets coin of None \<Rightarrow> Wallet_init coin | Some w \<Rightarrow> w)
      in add_to_wallets t coins (wallets(coin \<mapsto> add_transaction w t)))"

fun build_wallets_loop :: "transaction list \<Rightarrow> (string \<rightharpoonup> wallet) \<Rightarrow> (string \<rightharpoonup> wallet)" where
  "build_wallets_loop [] wallets = wallets"
| "build_wallets_loop (t # ts) wallets =
     build_wallets_loop ts (add_to_wallets t (get_coins t) wallets)"

definition build_wallets :: "CryptoExchange \<Rightarrow> (string \<rightharpoonup> wallet)" where
  "build_wallets ex = build_wallets_loop (get_transactions ex successful) Map.empty"

section \<open>data/exchanges.py: raw records\<close>

text \<open>
  A raw record is a deserialized JSON object: a dict from field names to values. Numbers
  are exact (reals). A dict is an association list, read by its first entry for a key.
\<close>

datatype pyval =
    PNone
  | PBool bool
  | PNum real
  | PStr string
  | PList "pyval list"
  | PDict "(string \<times> pyval) list"

type_synonym raw = "(string \<times> pyval) list"

definition then_do :: "error + 'a \<Rightarrow> ('a \<Rightarrow> error + 'b) \<Rightarrow> error + 'b" where
  "then_do m f = (case m of Inl e \<Rightarrow> Inl e | Inr x \<Rightarrow> f x)"

text \<open>\<open>raw[key]\<close> and \<open>key in raw\<close> on a record.\<close>

definition raw_getitem :: "raw \<Rightarrow> string \<Rightarrow> error + pyval" where
  "raw_getitem r key = (case map_of r key of None \<Rightarrow> Inl KeyError | Some v \<Rightarrow> Inr v)"

definition raw_contains :: "string \<Rightarrow> raw \<Rightarrow> bool" where
  "raw_contains key r = (key \<in> fst ` set r)"

text \<open>\<open>v[key]\<close> on any value: only a dict can be subscripted by a string.\<close>

definition getitem :: "pyval \<Rightarrow> string \<Rightarrow> error + pyval" where
  "getitem v key = (case v of PDict d \<Rightarrow> raw_getitem d key | _ \<Rightarrow> Inl TypeError)"

text \<open>
  \<open>key in v\<close> on any value: key membership in a dict, substring test in a string,
  element test in a list, \<open>TypeError\<close> otherwise.
\<close>

definition py_contains :: "string \<Rightarrow> pyval \<Rightarrow> error + bool" where
  "py_contains key v =
     (case v of
        PDict d \<Rightarrow> Inr (raw_contains key d)
      | PStr s \<Rightarrow> Inr (sublist key s)
      | PList l \<Rightarrow> Inr (PStr key \<in> set l)
      | _ \<Rightarrow> Inl TypeError)"

text \<open>
  \<open>float(v)\<close>. The reading of a string as a float is the parameter \<open>sf\<close>
  (\<open>None\<close>: the string is not a number, \<open>ValueError\<close>).
\<close>

definition py_float :: "(string \<Rightarrow> real option) \<Rightarrow> pyval \<Rightarrow> error + real" where
  "py_float sf v =
     (case v of
        PNum x \<Rightarrow> Inr x
      | PBool b \<Rightarrow> Inr (if b then 1 else 0)
      | PStr s \<Rightarrow> (case sf s of None \<Rightarrow> Inl ValueError | Some x \<Rightarrow> Inr x)
      | _ \<Rightarrow> Inl TypeError)"

text \<open>The truth value of \<open>v\<close> in \<open>if v:\<close>.\<close>

definition py_truthy :: "pyval \<Rightarrow> bool" where
  "py_truthy v =
     (case v of
        PNone \<Rightarrow> False
      | PBool b \<Rightarrow> b
      | PNum x \<Rightarrow> x \<noteq> 0
      | PStr s \<Rightarrow> s \<noteq> []
      | PList l \<Rightarrow> l \<noteq> []
      | PDict d \<Rightarrow> d \<noteq> [])"

text \<open>\<open>int(x)\<close> on a float truncates towards zero.\<close>

definition py_int :: "real \<Rightarrow> int" where
  "py_int x = (if 0 \<le> x then \<lfloor>x\<rfloor> else \<lceil>x\<rceil>)"

text \<open>\<open>s.replace(old, "")\<close>: the occurrences of \<open>old\<close> are removed, left to right.\<close>

function str_remove :: "string \<Rightarrow> string \<Rightarrow> string" where
  "str_remove old s =
     (if old = [] then s
      else if prefix old s then str_remove old (drop (length old) s)
      else (case s of [] \<Rightarrow> [] | c # cs \<Rightarrow> c # str_remove old cs))"
  by pat_completeness auto
termination
  by (relation "measure (\<lambda>(old, s). length s)") (auto simp: prefix_def)

declare str_remove.simps [simp del]

text \<open>
  Modelled from the spec: the class \<open>Commission\<close> (of \<open>pyhodl.models.transactions\<close>),
  whose source is not part of the files at hand: the record it is built from, a coin, an
  amount, a date and a success flag, stored as given.
\<close>

record commission =
  commission_source :: pyval
  commission_coin :: pyval
  commission_amount :: pyval
  commission_date :: real
  commission_successful :: bool

text \<open>The tuple \<open>(coin_buy, amount_buy, coin_sell, amount_sell)\<close> of \<open>get_coins_amounts\<close>.\<close>

type_synonym coins_amounts = "pyval \<times> real \<times> pyval \<times> real"

section \<open>data/exchanges.py: BinanceParser\<close>

definition Binance_is_trade :: "raw \<Rightarrow> bool" where
  "Binance_is_trade r = raw_contains ''isBuyer'' r"

definition Binance_is_deposit :: "raw \<Rightarrow> bool" where
  "Binance_is_deposit r = raw_contains ''insertTime'' r"

definition Binance_is_withdrawal :: "raw \<Rightarrow> bool" where
  "Binance_is_withdrawal r = raw_contains ''applyTime'' r"

text \<open>
  The trade branch of \<open>get_coins_amounts\<close>. The pair assigned when the market ends with
  \<open>"USDT"\<close> is \<open>usdt_split\<close>; the next statement assigns \<open>coin_buy, coin_sell\<close> again,
  whatever the test gave, as in the source. \<open>market.endswith\<close> on a value that is not a
  string raises \<open>AttributeError\<close>.
\<close>

definition Binance_trade_coins_amounts :: "(string \<Rightarrow> real option) \<Rightarrow> raw \<Rightarrow> error + coins_amounts" where
  "Binance_trade_coins_amounts sf r =
     then_do (raw_getitem r ''symbol'') (\<lambda>symbol.
       case symbol of
         PStr market \<Rightarrow>
           (let usdt_split =
                  (if suffix ''USDT'' market
                   then Some (str_remove ''USDT'' market, ''USDT'') else None);
                coin_buy = take (length market - 3) market;
                coin_sell = drop (length market - 3) market
            in then_do (then_do (raw_getitem r ''qty'') (py_float sf)) (\<lambda>amount_buy.
               then_do (then_do (raw_getitem r ''price'') (py_float sf)) (\<lambda>price.
               let amount_sell = price * amount_buy in
               then_do (raw_getitem r ''isBuyer'') (\<lambda>is_buyer.
                 if py_truthy is_buyer
                 then Inr (PStr coin_buy, amount_buy, PStr coin_sell, amount_sell)
                 else Inr (PStr coin_sell, amount_sell, PStr coin_buy, amount_buy)))))
       | _ \<Rightarrow> Inl AttributeError)"

definition Binance_get_coins_amounts :: "(string \<Rightarrow> real option) \<Rightarrow> raw \<Rightarrow> error + coins_amounts" where
  "Binance_get_coins_amounts sf r =
     (if Binance_is_trade r then Binance_trade_coins_amounts sf r
      else if Binance_is_deposit r then
        then_do (raw_getitem r ''asset'') (\<lambda>asset.
        then_do (then_do (raw_getitem r ''amount'') (py_float sf)) (\<lambda>amount.
          Inr (asset, amount, PNone, 0)))
      else if Binance_is_withdrawal r then
        then_do (raw_getitem r ''asset'') (\<lambda>asset.
        then_do (then_do (raw_getitem r ''amount'') (py_float sf)) (\<lambda>amount.
          Inr (PNone, 0, asset, amount)))
      else Inr (PNone, 0, PNone, 0))"

section \<open>data/exchanges.py: BitfinexParser\<close>

text \<open>\<open>raw["type"] in ["Sell", "Buy"]\<close> and the two comparisons of \<open>raw["type"]\<close>.\<close>

definition Bitfinex_is_trade :: "raw \<Rightarrow> error + bool" where
  "Bitfinex_is_trade r =
     then_do (raw_getitem r ''type'') (\<lambda>t. Inr (t \<in> set [PStr ''Sell'', PStr ''Buy'']))"

definition Bitfinex_is_withdrawal :: "raw \<Rightarrow> error + bool" where
  "Bitfinex_is_withdrawal r =
     then_do (raw_getitem r ''type'') (\<lambda>t. Inr (t = PStr ''WITHDRAWAL''))"

definition Bitfinex_is_deposit :: "raw \<Rightarrow> error + bool" where
  "Bitfinex_is_deposit r =
     then_do (raw_getitem r ''type'') (\<lambda>t. Inr (t = PStr ''DEPOSIT''))"

text \<open>
  \<open>get_fee\<close>: the second test is \<open>is_deposit(raw) or is_trade(raw)\<close>, as in the source;
  a record that passes neither test falls off the end, and the result is \<open>None\<close>.
\<close>

definition Bitfinex_get_fee :: "(string \<Rightarrow> real option) \<Rightarrow> raw \<Rightarrow> error + (pyval \<times> real) option" where
  "Bitfinex_get_fee sf r =
     then_do (Bitfinex_is_trade r) (\<lambda>trade.
       if trade then
         then_do (raw_getitem r ''fee_currency'') (\<lambda>coin.
         then_do (then_do (raw_getitem r ''fee_amount'') (py_float sf)) (\<lambda>amount.
           Inr (Some (coin, \<bar>amount\<bar>))))
       else
         then_do (Bitfinex_is_deposit r) (\<lambda>deposit.
         then_do (if deposit then Inr True else Bitfinex_is_trade r) (\<lambda>deposit_or_trade.
           if deposit_or_trade then
             then_do (raw_getitem r ''currency'') (\<lambda>coin.
             then_do (then_do (raw_getitem r ''fee'') (py_float sf)) (\<lambda>amount.
               Inr (Some (coin, \<bar>amount\<bar>))))
           else Inr None)))"

text \<open>
  \<open>datetime.fromtimestamp(int(float(raw["timestamp"])))\<close>. The conversion
  \<open>datetime.fromtimestamp\<close> of the standard library is the parameter \<open>fromtimestamp\<close>: it
  gives the date, or raises for a number of seconds outside the range of the platform.
\<close>

definition Bitfinex_get_date ::
  "(string \<Rightarrow> real option) \<Rightarrow> (int \<Rightarrow> error + real) \<Rightarrow> raw \<Rightarrow> error + real" where
  "Bitfinex_get_date sf fromtimestamp r =
     then_do (then_do (raw_getitem r ''timestamp'') (py_float sf)) (\<lambda>x.
       fromtimestamp (py_int x))"

definition Bitfinex_is_successful :: "(string \<Rightarrow> real option) \<Rightarrow> raw \<Rightarrow> error + bool" where
  "Bitfinex_is_successful sf r =
     then_do (Bitfinex_is_trade r) (\<lambda>trade.
       if trade then
         then_do (then_do (raw_getitem r ''fee_amount'') (py_float sf)) (\<lambda>fee_amount.
           Inr (fee_amount \<le> 0))
       else
         then_do (Bitfinex_is_deposit r) (\<lambda>deposit.
         then_do (if deposit then Inr True else Bitfinex_is_withdrawal r) (\<lambda>transfer.
           if transfer then
             then_do (raw_getitem r ''status'') (\<lambda>status. Inr (status = PStr ''COMPLETED''))
           else Inr False)))"

text \<open>
  \<open>get_commission\<close>: \<open>fee_coin, amount = self.get_fee(raw)\<close> unpacks the result of
  \<open>get_fee\<close>; unpacking \<open>None\<close> raises \<open>TypeError\<close>. The arguments of \<open>Commission\<close> are
  evaluated left to right.
\<close>

definition Bitfinex_get_commission ::
  "(string \<Rightarrow> real option) \<Rightarrow> (int \<Rightarrow> error + real) \<Rightarrow> raw \<Rightarrow> error + commission option" where
  "Bitfinex_get_commission sf fromtimestamp r =
     then_do (Bitfinex_get_fee sf r) (\<lambda>fee.
       case fee of
         None \<Rightarrow> Inl TypeError
       | Some (fee_coin, amount) \<Rightarrow>
           if py_truthy fee_coin then
             then_do (Bitfinex_get_date sf fromtimestamp r) (\<lambda>d.
             then_do (Bitfinex_is_successful sf r) (\<lambda>ok.
               Inr (Some \<lparr>commission_source = PDict r, commission_coin = fee_coin,
                          commission_amount = PNum amount, commission_date = d,
                          commission_successful = ok\<rparr>)))
           else Inr None)"

section \<open>data/exchanges.py: CoinbaseParser\<close>

definition Coinbase_is_trade :: "raw \<Rightarrow> error + bool" where
  "Coinbase_is_trade r =
     then_do (raw_getitem r ''type'') (\<lambda>t. Inr (t \<in> set [PStr ''buy'', PStr ''sell'']))"

text \<open>\<open>float(raw[field]["amount"])\<close>, for \<open>field\<close> one of \<open>"amount"\<close>, \<open>"native_amount"\<close>.\<close>

definition Coinbase_amount :: "(string \<Rightarrow> real option) \<Rightarrow> raw \<Rightarrow> string \<Rightarrow> error + real" where
  "Coinbase_amount sf r field =
     then_do (raw_getitem r field) (\<lambda>a.
     then_do (getitem a ''amount'') (py_float sf))"

definition Coinbase_is_withdrawal :: "(string \<Rightarrow> real option) \<Rightarrow> raw \<Rightarrow> error + bool" where
  "Coinbase_is_withdrawal sf r =
     then_do (Coinbase_amount sf r ''amount'') (\<lambda>amount.
     then_do (Coinbase_amount sf r ''native_amount'') (\<lambda>native_amount.
       Inr (amount < 0 \<and> native_amount < 0)))"

definition Coinbase_is_deposit :: "(string \<Rightarrow> real option) \<Rightarrow> raw \<Rightarrow> error + bool" where
  "Coinbase_is_deposit sf r =
     then_do (Coinbase_amount sf r ''amount'') (\<lambda>amount.
     then_do (Coinbase_amount sf r ''native_amount'') (\<lambda>native_amount.
       Inr (0 \<le> amount \<and> 0 \<le> native_amount)))"

text \<open>
  \<open>ciso8601.parse_datetime(raw["updated_at"])\<close>; the parser is the parameter \<open>parse_iso\<close>
  (\<open>None\<close>: \<open>ValueError\<close>), and a value that is not a string raises \<open>TypeError\<close>.
\<close>

definition Coinbase_get_date :: "(string \<Rightarrow> real option) \<Rightarrow> raw \<Rightarrow> error + real" where
  "Coinbase_get_date parse_iso r =
     then_do (raw_getitem r ''updated_at'') (\<lambda>v.
       case v of
         PStr s \<Rightarrow> (case parse_iso s of None \<Rightarrow> Inl ValueError | Some d \<Rightarrow> Inr d)
       | _ \<Rightarrow> Inl TypeError)"

text \<open>The body of the \<open>try\<close> of \<open>get_commission\<close>.\<close>

definition Coinbase_commission_body :: "(string \<Rightarrow> real option) \<Rightarrow> raw \<Rightarrow> error + commission" where
  "Coinbase_commission_body parse_iso r =
     then_do (raw_getitem r ''network'') (\<lambda>commission_data.
     then_do (then_do (getitem commission_data ''transaction_fee'') (\<lambda>f. getitem f ''currency'')) (\<lambda>coin.
     then_do (then_do (getitem commission_data ''transaction_fee'') (\<lambda>f. getitem f ''amount'')) (\<lambda>amount.
     then_do (Coinbase_get_date parse_iso r) (\<lambda>d.
     then_do (getitem commission_data ''status'') (\<lambda>status.
       Inr \<lparr>commission_source = commission_data, commission_coin = coin,
            commission_amount = amount, commission_date = d,
            commission_successful = (status = PStr ''confirmed'')\<rparr>)))))"

text \<open>\<open>get_commission\<close>: any exception of the body is caught, and the result is \<open>None\<close>.\<close>

definition Coinbase_get_commission :: "(string \<Rightarrow> real option) \<Rightarrow> raw \<Rightarrow> error + commission option" where
  "Coinbase_get_commission parse_iso r =
     (case Coinbase_commission_body parse_iso r of
        Inl e \<Rightarrow> Inr None
      | Inr c \<Rightarrow> Inr (Some c))"

section \<open>data/exchanges.py: GdaxParser\<close>

definition Gdax_is_trade :: "raw \<Rightarrow> error + bool" where
  "Gdax_is_trade r = then_do (raw_getitem r ''details'') (py_contains ''product_id'')"

definition Gdax_get_transfer_type :: "raw \<Rightarrow> error + pyval" where
  "Gdax_get_transfer_type r =
     then_do (raw_getitem r ''type'') (\<lambda>t.
       if t = PStr ''transfer''
       then then_do (raw_getitem r ''details'') (\<lambda>d. getitem d ''transfer_type'')
       else Inr PNone)"

definition Gdax_is_withdrawal :: "raw \<Rightarrow> error + bool" where
  "Gdax_is_withdrawal r = then_do (Gdax_get_transfer_type r) (\<lambda>t. Inr (t = PStr ''withdraw''))"

definition Gdax_is_deposit :: "raw \<Rightarrow> error + bool" where
  "Gdax_is_deposit r = then_do (Gdax_get_transfer_type r) (\<lambda>t. Inr (t = PStr ''deposit''))"

definition Gdax_get_commission :: "raw \<Rightarrow> error + commission option" where
  "Gdax_get_commission r = Inr None"

section \<open>Concrete inputs\<close>

text \<open>A table of four dates with a tolerance of 50 seconds.\<close>

definition table_four :: "(real, real, string) DatetimeTable" where
  "table_four =
     \<lparr>content = [(0, ''a''), (100, ''b''), (200, ''c''), (1000, ''d'')],
      dates = [0, 100, 200, 1000], max_error = 50\<rparr>"

text \<open>
  Two dates nine days apart (2020-01-01 and 2020-01-10, in seconds from the first) with a
  tolerance of one day.
\<close>

definition table_days :: "(real, real, string) DatetimeTable" where
  "table_days =
     \<lparr>content = [(0, ''first''), (777600, ''tenth'')],
      dates = [0, 777600], max_error = 86400\<rparr>"

text \<open>Two dates with a tolerance that covers every query used below.\<close>

definition table_two :: "(real, real, string) DatetimeTable" where
  "table_two = \<lparr>content = [(10, ''a''), (20, ''b'')], dates = [10, 20], max_error = 100\<rparr>"

definition mk_delta :: "nat \<Rightarrow> delta_value \<Rightarrow> nat delta" where
  "mk_delta d v = \<lparr>delta_date = d, delta_value = v\<rparr>"

text \<open>The number in a value, for stating sums; the marker counts as 0.\<close>

definition known_value :: "delta_value \<Rightarrow> real" where
  "known_value v = (case v of Known a \<Rightarrow> a | NAN \<Rightarrow> 0)"

text \<open>A successful trade of BTC for USD, and a failed trade of ETH for EUR.\<close>

definition trade_ok :: transaction where
  "trade_ok = \<lparr>buy_coin = Some ''USD'', buy_amount = 100, sell_coin = Some ''BTC'',
               sell_amount = 1, date = 1, successful = True\<rparr>"

definition trade_failed :: transaction where
  "trade_failed = \<lparr>buy_coin = Some ''EUR'', buy_amount = 50, sell_coin = Some ''ETH'',
                   sell_amount = 2, date = 2, successful = False\<rparr>"

definition exchange_two :: CryptoExchange where
  "exchange_two = \<lparr>exchange_transactions = [trade_ok, trade_failed], exchange_name = ''test''\<rparr>"

definition coinbase_buy :: raw where
  "coinbase_buy =
     [(''type'', PStr ''buy''),
      (''amount'', PDict [(''amount'', PNum 1), (''currency'', PStr ''BTC'')]),
      (''native_amount'', PDict [(''amount'', PNum 100), (''currency'', PStr ''USD'')])]"

definition bitfinex_withdrawal :: raw where
  "bitfinex_withdrawal =
     [(''type'', PStr ''WITHDRAWAL''), (''currency'', PStr ''BTC''), (''amount'', PNum 1),
      (''fee'', PNum 0), (''status'', PStr ''COMPLETED''), (''timestamp'', PNum 1500000000)]"

definition bitfinex_trade_no_fee :: raw where
  "bitfinex_trade_no_fee =
     [(''type'', PStr ''Buy''), (''symbol'', PStr ''BTCUSD''), (''amount'', PNum 1),
      (''price'', PNum 100), (''timestamp'', PNum 1500000000)]"

definition bitfinex_trade_fee :: raw where
  "bitfinex_trade_fee =
     [(''type'', PStr ''Buy''), (''symbol'', PStr ''BTCUSD''), (''amount'', PNum 1),
      (''price'', PNum 100), (''fee_currency'', PStr ''USD''), (''fee_amount'', PNum 2),
      (''timestamp'', PNum 1500000000)]"

definition binance_usdt_trade :: raw where
  "binance_usdt_trade =
     [(''symbol'', PStr ''BTCUSDT''), (''qty'', PNum 2), (''price'', PNum 100),
      (''isBuyer'', PBool True)]"

definition binance_unmarked :: raw where
  "binance_unmarked = [(''asset'', PStr ''BTC''), (''amount'', PNum 1)]"

text \<open>A Binance record with the marker fields of a trade, of a deposit and of a withdrawal.\<close>

definition binance_all_markers :: raw where
  "binance_all_markers =
     [(''symbol'', PStr ''ETHBTC''), (''qty'', PNum 2), (''price'', PNum 3),
      (''isBuyer'', PBool True), (''insertTime'', PNum 1500000000000),
      (''applyTime'', PNum 1500000000000), (''asset'', PStr ''ETH''), (''amount'', PNum 7)]"

text \<open>A Binance record with the marker fields of a deposit and of a withdrawal.\<close>

definition binance_two_markers :: raw where
  "binance_two_markers =
     [(''insertTime'', PNum 1500000000000), (''applyTime'', PNum 1500000000000),
      (''asset'', PStr ''ETH''), (''amount'', PNum 7)]"

text \<open>A Binance record with the marker field of a withdrawal only.\<close>

definition binance_withdrawal :: raw where
  "binance_withdrawal =
     [(''applyTime'', PNum 1500000000000), (''asset'', PStr ''ETH''), (''amount'', PNum 7)]"

text \<open>
  A \<open>parse_datetime\<close> that reads three date strings, as seconds from 2020-01-01, and
  leaves a \<open>datetime\<close> as it is. The first two strings are the same instant.
\<close>

definition parse_days :: "date_key \<Rightarrow> real option" where
  "parse_days k =
     (case k of
        DateTime d \<Rightarrow> Some d
      | DateStr s \<Rightarrow>
          (if s = ''2020-01-01'' then Some 0
           else if s = ''2020-01-01 00:00:00'' then Some 0
           else if s = ''2020-01-10'' then Some 777600
           else None))"

text \<open>Records of a JSON file, each a pair of its \<open>"date"\<close> field and its other content.\<close>

definition records_two_days :: "(date_key \<times> string) list" where
  "records_two_days = [(DateStr ''2020-01-10'', ''tenth''), (DateStr ''2020-01-01'', ''first'')]"

definition records_same_instant :: "(date_key \<times> string) list" where
  "records_same_instant =
     [(DateStr ''2020-01-01'', ''first''), (DateStr ''2020-01-01 00:00:00'', ''again'')]"

section \<open>DatetimeTable: the invariant of the constructor\<close>

lemma build_content_keys:
  "build_content date_of items acc = Inr c \<Longrightarrow> distinct (map fst acc) \<Longrightarrow>
     distinct (map fst c) \<and> fst ` set c = fst ` set acc \<union> {k. \<exists>i \<in> set items. date_of i = Some k}"
proof (induction items arbitrary: acc)
  case Nil
  then show ?case by simp
next
  case (Cons item items)
  from Cons.prems(1) obtain d where d: "date_of item = Some d"
    and rec: "build_content date_of items (AList.update d item acc) = Inr c"
    by (auto split: option.splits)
  have "distinct (map fst (AList.update d item acc))"
    using Cons.prems(2) by (simp add: distinct_update)
  from Cons.IH [OF rec this]
  show ?case using d by (auto simp: dom_update)
qed

lemma parse_dates_map:
  "parse_dates p ks = Inr ds \<Longrightarrow> map p ks = map Some ds"
  by (induction ks arbitrary: ds) (auto split: option.splits sum.splits)

lemma DatetimeTable_init_content:
  assumes "DatetimeTable_init parse_datetime date_of items m = Inr T"
  shows "build_content date_of items [] = Inr (content T)"
    and "\<exists>ds. parse_dates parse_datetime (map fst (content T)) = Inr ds \<and> dates T = sort ds"
  using assms by (auto simp: DatetimeTable_init_def split: sum.splits)

text \<open>
  What the constructor does establish: \<open>dates\<close> is sorted and has one element for each key
  of \<open>content\<close>, the parsed key; it has no duplicates when \<open>parse_datetime\<close> sends distinct
  keys to distinct dates.
\<close>

lemma DatetimeTable_init_dates:
  assumes "DatetimeTable_init parse_datetime date_of items m = Inr T"
  shows "sorted (dates T) \<and>
         distinct (map fst (content T)) \<and>
         fst ` set (content T) = {k. \<exists>i \<in> set items. date_of i = Some k} \<and>
         length (dates T) = length (content T) \<and>
         Some ` set (dates T) = parse_datetime ` fst ` set (content T) \<and>
         (inj_on parse_datetime (fst ` set (content T)) \<longrightarrow>
            distinct (dates T) \<and>
            dates T = sorted_list_of_set {d. \<exists>k \<in> fst ` set (content T). parse_datetime k = Some d})"
proof -
  from DatetimeTable_init_content [OF assms] obtain ds
    where c: "build_content date_of items [] = Inr (content T)"
      and p: "parse_dates parse_datetime (map fst (content T)) = Inr ds"
      and d: "dates T = sort ds"
    by blast
  from build_content_keys [OF c]
  have keys: "distinct (map fst (content T))"
    "fst ` set (content T) = {k. \<exists>i \<in> set items. date_of i = Some k}"
    by simp_all
  from parse_dates_map [OF p]
  have m: "map parse_datetime (map fst (content T)) = map Some ds" .
  then have len: "length ds = length (content T)"
    by (metis length_map)
  from m have "set (map parse_datetime (map fst (content T))) = set (map Some ds)"
    by simp
  then have img: "Some ` set ds = parse_datetime ` fst ` set (content T)"
    by (simp add: image_image)
  have inj: "distinct ds" if "inj_on parse_datetime (fst ` set (content T))"
  proof -
    from that keys(1) have "distinct (map parse_datetime (map fst (content T)))"
      by (subst distinct_map) simp
    with m have "distinct (map Some ds)" by simp
    then show ?thesis by (simp add: distinct_map)
  qed
  have set_eq: "set ds = {d. \<exists>k \<in> fst ` set (content T). parse_datetime k = Some d}"
  proof (intro set_eqI iffI)
    fix x assume "x \<in> set ds"
    then have "Some x \<in> parse_datetime ` fst ` set (content T)" using img by blast
    then show "x \<in> {d. \<exists>k \<in> fst ` set (content T). parse_datetime k = Some d}" by force
  next
    fix x assume "x \<in> {d. \<exists>k \<in> fst ` set (content T). parse_datetime k = Some d}"
    then have "Some x \<in> parse_datetime ` fst ` set (content T)" by force
    then have "Some x \<in> Some ` set ds" using img by simp
    then show "x \<in> set ds" by blast
  qed
  have sl: "sort ds = sorted_list_of_set {d. \<exists>k \<in> fst ` set (content T). parse_datetime k = Some d}"
    if "inj_on parse_datetime (fst ` set (content T))"
  proof -
    have "sorted_list_of_set (set ds) = sort ds"
      using inj [OF that] by (simp add: sorted_list_of_set_sort_remdups distinct_remdups_id)
    then show ?thesis using set_eq by simp
  qed
  show ?thesis using keys len img inj sl d by simp
qed

text \<open>
  C1, at two failing inputs. From two records with the date strings \<open>"2020-01-10"\<close> and
  \<open>"2020-01-01"\<close> the constructor builds \<open>content\<close> with the two strings as keys and
  \<open>dates\<close> with the two parsed dates: no element of \<open>dates\<close> is a key of \<open>content\<close>, and
  reading \<open>content\<close> at an element of \<open>dates\<close> raises \<open>KeyError\<close>. From two records whose
  date strings are two writings of one instant, \<open>dates\<close> has that date twice.
\<close>

theorem DatetimeTable_init_dates_not_keys_failing:
  "DatetimeTable_init parse_days (\<lambda>i. Some (fst i)) records_two_days 86400
     = Inr \<lparr>content = [(DateStr ''2020-01-10'', (DateStr ''2020-01-10'', ''tenth'')),
                       (DateStr ''2020-01-01'', (DateStr ''2020-01-01'', ''first''))],
            dates = [0, 777600], max_error = 86400\<rparr> \<and>
   content_getitem [(DateStr ''2020-01-10'', (DateStr ''2020-01-10'', ''tenth'')),
                    (DateStr ''2020-01-01'', (DateStr ''2020-01-01'', ''first''))]
     (Some (DateTime 0)) = Inl KeyError \<and>
   content_getitem [(DateStr ''2020-01-10'', (DateStr ''2020-01-10'', ''tenth'')),
                    (DateStr ''2020-01-01'', (DateStr ''2020-01-01'', ''first''))]
     (Some (DateTime 777600)) = Inl KeyError \<and>
   DatetimeTable_init parse_days (\<lambda>i. Some (fst i)) records_same_instant 86400
     = Inr \<lparr>content = [(DateStr ''2020-01-01'', (DateStr ''2020-01-01'', ''first'')),
                       (DateStr ''2020-01-01 00:00:00'', (DateStr ''2020-01-01 00:00:00'', ''again''))],
            dates = [0, 0], max_error = 86400\<rparr> \<and>
   \<not> distinct [0::real, 0]"
  by (simp add: DatetimeTable_init_def records_two_days_def records_same_instant_def
      parse_days_def content_getitem_def)

section \<open>DatetimeTable: the lookup\<close>

lemma bisect_loop_correct:
  "sorted a \<Longrightarrow> lo \<le> hi \<Longrightarrow> hi \<le> length a \<Longrightarrow>
   (\<forall>i<lo. a ! i \<le> x) \<Longrightarrow> (\<forall>i. hi \<le> i \<and> i < length a \<longrightarrow> x < a ! i) \<Longrightarrow>
   lo \<le> bisect_loop a x lo hi \<and> bisect_loop a x lo hi \<le> hi \<and>
   (\<forall>i<bisect_loop a x lo hi. a ! i \<le> x) \<and>
   (\<forall>i. bisect_loop a x lo hi \<le> i \<and> i < length a \<longrightarrow> x < a ! i)"
proof (induction a x lo hi rule: bisect_loop.induct)
  case (1 a x lo hi)
  show ?case
  proof (cases "lo < hi")
    case False
    then have "bisect_loop a x lo hi = lo" by (subst bisect_loop.simps) simp
    with "1.prems" False show ?thesis by simp
  next
    case True
    define mid where "mid = (lo + hi) div 2"
    have mid: "lo \<le> mid" "mid < hi" using True by (auto simp: mid_def)
    show ?thesis
    proof (cases "x < a ! mid")
      case lt: True
      have eq: "bisect_loop a x lo hi = bisect_loop a x lo mid"
        using True lt by (subst bisect_loop.simps) (simp add: mid_def Let_def)
      have up: "\<forall>i. mid \<le> i \<and> i < length a \<longrightarrow> x < a ! i"
      proof (intro allI impI)
        fix i assume "mid \<le> i \<and> i < length a"
        then have "a ! mid \<le> a ! i" using "1.prems"(1) by (simp add: sorted_nth_mono)
        with lt show "x < a ! i" by simp
      qed
      have "lo \<le> bisect_loop a x lo mid \<and> bisect_loop a x lo mid \<le> mid \<and>
        (\<forall>i<bisect_loop a x lo mid. a ! i \<le> x) \<and>
        (\<forall>i. bisect_loop a x lo mid \<le> i \<and> i < length a \<longrightarrow> x < a ! i)"
        using "1.IH"(1) [OF True mid_def lt "1.prems"(1) mid(1) _ "1.prems"(4) up]
          mid "1.prems"(3) by simp
      then show ?thesis using eq mid by auto
    next
      case ge: False
      have eq: "bisect_loop a x lo hi = bisect_loop a x (mid + 1) hi"
        using True ge by (subst bisect_loop.simps) (simp add: mid_def Let_def)
      have midlen: "mid < length a" using mid "1.prems"(3) by simp
      have low: "\<forall>i<mid + 1. a ! i \<le> x"
      proof (intro allI impI)
        fix i assume "i < mid + 1"
        then have "a ! i \<le> a ! mid" using "1.prems"(1) midlen by (simp add: sorted_nth_mono)
        with ge show "a ! i \<le> x" by simp
      qed
      have "mid + 1 \<le> bisect_loop a x (mid + 1) hi \<and> bisect_loop a x (mid + 1) hi \<le> hi \<and>
        (\<forall>i<bisect_loop a x (mid + 1) hi. a ! i \<le> x) \<and>
        (\<forall>i. bisect_loop a x (mid + 1) hi \<le> i \<and> i < length a \<longrightarrow> x < a ! i)"
        using "1.IH"(2) [OF True mid_def ge "1.prems"(1) _ "1.prems"(3) low "1.prems"(5)]
          mid by simp
      then show ?thesis using eq mid by auto
    qed
  qed
qed

lemma bisect_correct:
  assumes "sorted a"
  shows "bisect a x \<le> length a"
    and "\<And>i. i < bisect a x \<Longrightarrow> a ! i \<le> x"
    and "\<And>i. bisect a x \<le> i \<Longrightarrow> i < length a \<Longrightarrow> x < a ! i"
proof -
  have "0 \<le> bisect_loop a x 0 (length a) \<and> bisect_loop a x 0 (length a) \<le> length a \<and>
   (\<forall>i<bisect_loop a x 0 (length a). a ! i \<le> x) \<and>
   (\<forall>i. bisect_loop a x 0 (length a) \<le> i \<and> i < length a \<longrightarrow> x < a ! i)"
    by (rule bisect_loop_correct [OF assms]) auto
  then show "bisect a x \<le> length a"
    and "\<And>i. i < bisect a x \<Longrightarrow> a ! i \<le> x"
    and "\<And>i. bisect a x \<le> i \<Longrightarrow> i < length a \<Longrightarrow> x < a ! i"
    unfolding bisect_def by simp_all
qed

lemma bisect_interior:
  assumes s: "sorted a" and l: "1 < length a" and lo: "a ! 1 \<le> x" and hi: "x < last a"
  shows "2 \<le> bisect a x" and "bisect a x < length a"
proof -
  show "2 \<le> bisect a x"
  proof (rule ccontr)
    assume "\<not> 2 \<le> bisect a x"
    then have "bisect a x \<le> 1" by simp
    from bisect_correct(3) [OF s this l] lo show False by simp
  qed
  show "bisect a x < length a"
  proof (rule ccontr)
    assume "\<not> bisect a x < length a"
    with bisect_correct(1) [OF s, of x] have e: "bisect a x = length a" by simp
    have "length a - 1 < bisect a x" using e l by simp
    from bisect_correct(2) [OF s this] have "a ! (length a - 1) \<le> x" .
    moreover have "a \<noteq> []" using l by auto
    then have "last a = a ! (length a - 1)" by (rule last_conv_nth)
    ultimately show False using hi by simp
  qed
qed

lemma get_values_on_interior:
  assumes s: "sorted (dates T)" and l: "1 < length (dates T)"
    and lo: "dates T ! 1 \<le> dt" and hi: "dt < last (dates T)"
  defines "i \<equiv> bisect (dates T) dt"
  shows "get_values_on T dt =
      (if dt - dates T ! (i - 1) \<le> dates T ! i - dt \<and> dt - dates T ! (i - 1) < max_error T
       then content_getitem (content T) (Some (dates T ! (i - 1)))
       else if dates T ! i - dt \<le> dt - dates T ! (i - 1) \<and> dates T ! i - dt < max_error T
       then content_getitem (content T) (Some (dates T ! i))
       else Inr None)"
proof -
  from bisect_interior [OF s l lo hi] have b: "2 \<le> i" "i < length (dates T)"
    by (simp_all add: i_def)
  then have n: "nat (int i - 1) = i - 1" "int i - 1 > 0" by simp_all
  show ?thesis
    unfolding get_values_on_def Let_def i_def [symmetric]
    using b n by simp
qed

text \<open>
  C2, the claim as stated fails: a date at a distance equal to the tolerance is a miss
  (query 150, date 100, tolerance 50), and the example of two dates nine days apart with a
  tolerance of one day gives no record for the second day, one day after the first date.
\<close>

theorem get_values_on_boundary_counterexample:
  "get_values_on table_four 150 = Inr None \<and>
   \<bar>150 - 100\<bar> \<le> max_error table_four \<and> 100 \<in> set (dates table_four) \<and>
   get_values_on table_days 86400 = Inr None \<and>
   \<bar>86400 - 0\<bar> \<le> max_error table_days \<and> 0 \<in> set (dates table_days)"
  by (simp add: table_four_def table_days_def get_values_on_def bisect_def bisect_loop.simps)

text \<open>
  C2, as amended. For a table whose \<open>dates\<close> are sorted and are keys of \<open>content\<close>, and a
  query with at least two dates at or before it and at least one date after it:
  \<open>get_values_on\<close> returns the stored record of a date nearest to the query among all
  dates (the earliest such date on a tie) when that distance is strictly less than
  \<open>max_error\<close>, and returns "not found" when no date is strictly within \<open>max_error\<close>.
\<close>

theorem get_values_on_bounded_nearest:
  fixes T :: "(real, real, 'r) DatetimeTable"
  assumes s: "sorted (dates T)" and keys: "set (dates T) \<subseteq> fst ` set (content T)"
    and l: "1 < length (dates T)"
    and lo: "dates T ! 1 \<le> dt" and hi: "dt < last (dates T)"
  shows "((\<forall>d \<in> set (dates T). max_error T \<le> \<bar>dt - d\<bar>) \<longrightarrow> get_values_on T dt = Inr None) \<and>
         ((\<exists>d \<in> set (dates T). \<bar>dt - d\<bar> < max_error T) \<longrightarrow>
            (\<exists>d \<in> set (dates T). \<exists>r.
               \<bar>dt - d\<bar> < max_error T \<and>
               (\<forall>d' \<in> set (dates T). \<bar>dt - d\<bar> \<le> \<bar>dt - d'\<bar>) \<and>
               (\<forall>d' \<in> set (dates T). \<bar>dt - d'\<bar> = \<bar>dt - d\<bar> \<longrightarrow> d \<le> d') \<and>
               map_of (content T) d = Some r \<and>
               get_values_on T dt = Inr (Some r)))"
proof -
  define i where "i = bisect (dates T) dt"
  define low where "low = dates T ! (i - 1)"
  define high where "high = dates T ! i"
  from bisect_interior [OF s l lo hi] have b: "2 \<le> i" "i < length (dates T)"
    by (simp_all add: i_def)
  have lowle: "low \<le> dt"
    using bisect_correct(2) [OF s, of "i - 1" dt] b by (simp add: low_def i_def)
  have highgt: "dt < high"
    using bisect_correct(3) [OF s, of dt i] b by (simp add: high_def i_def)
  have lowin: "low \<in> set (dates T)" and highin: "high \<in> set (dates T)"
    using b by (simp_all add: low_def high_def)
  have split: "d \<le> low \<or> high \<le> d" if "d \<in> set (dates T)" for d
  proof -
    from that obtain j where j: "j < length (dates T)" "d = dates T ! j"
      by (auto simp: in_set_conv_nth)
    show ?thesis
    proof (cases "j < i")
      case True
      then have "j \<le> i - 1" by simp
      then have "dates T ! j \<le> dates T ! (i - 1)"
        using s b by (simp add: sorted_nth_mono)
      then show ?thesis by (simp add: j low_def)
    next
      case False
      then have "i \<le> j" by simp
      then have "dates T ! i \<le> dates T ! j"
        using s j by (simp add: sorted_nth_mono)
      then show ?thesis by (simp add: j high_def)
    qed
  qed
  have far: "min (dt - low) (high - dt) \<le> \<bar>dt - d\<bar>" if "d \<in> set (dates T)" for d
    using split [OF that] lowle highgt by auto
  have g: "get_values_on T dt =
      (if dt - low \<le> high - dt \<and> dt - low < max_error T
       then content_getitem (content T) (Some low)
       else if high - dt \<le> dt - low \<and> high - dt < max_error T
       then content_getitem (content T) (Some high)
       else Inr None)"
    using get_values_on_interior [OF s l lo hi] by (simp add: low_def high_def i_def)
  have stored: "\<exists>r. map_of (content T) d = Some r \<and> content_getitem (content T) (Some d) = Inr (Some r)"
    if "d \<in> set (dates T)" for d
  proof -
    from that keys have "d \<in> fst ` set (content T)" by blast
    then obtain r where "map_of (content T) d = Some r"
      by (metis domD dom_map_of_conv_image_fst)
    then show ?thesis by (simp add: content_getitem_def)
  qed
  have none: "get_values_on T dt = Inr None" if "\<forall>d \<in> set (dates T). max_error T \<le> \<bar>dt - d\<bar>"
  proof -
    from that lowin highin have "max_error T \<le> \<bar>dt - low\<bar>" "max_error T \<le> \<bar>dt - high\<bar>"
      by blast+
    with lowle highgt show ?thesis by (simp add: g)
  qed
  have some: "\<exists>d \<in> set (dates T). \<exists>r.
               \<bar>dt - d\<bar> < max_error T \<and>
               (\<forall>d' \<in> set (dates T). \<bar>dt - d\<bar> \<le> \<bar>dt - d'\<bar>) \<and>
               (\<forall>d' \<in> set (dates T). \<bar>dt - d'\<bar> = \<bar>dt - d\<bar> \<longrightarrow> d \<le> d') \<and>
               map_of (content T) d = Some r \<and>
               get_values_on T dt = Inr (Some r)"
    if ex: "\<exists>d \<in> set (dates T). \<bar>dt - d\<bar> < max_error T"
  proof -
    from ex obtain d0 where d0: "d0 \<in> set (dates T)" "\<bar>dt - d0\<bar> < max_error T" by blast
    from far [OF d0(1)] d0(2) have m: "min (dt - low) (high - dt) < max_error T" by simp
    show ?thesis
    proof (cases "dt - low \<le> high - dt")
      case True
      with m have w: "dt - low < max_error T" by simp
      from stored [OF lowin] obtain r where r: "map_of (content T) low = Some r"
        "content_getitem (content T) (Some low) = Inr (Some r)" by blast
      have near: "\<bar>dt - low\<bar> \<le> \<bar>dt - d'\<bar>" if "d' \<in> set (dates T)" for d'
        using far [OF that] True lowle by simp
      have tie: "low \<le> d'" if "d' \<in> set (dates T)" "\<bar>dt - d'\<bar> = \<bar>dt - low\<bar>" for d'
        using split [OF that(1)] that(2) lowle highgt True by auto
      have "get_values_on T dt = Inr (Some r)" using True w r by (simp add: g)
      with lowin r near tie w lowle show ?thesis
        by (intro bexI [of _ low] exI [of _ r]) auto
    next
      case False
      then have f: "high - dt < dt - low" by simp
      with m have w: "high - dt < max_error T" by simp
      from stored [OF highin] obtain r where r: "map_of (content T) high = Some r"
        "content_getitem (content T) (Some high) = Inr (Some r)" by blast
      have near: "\<bar>dt - high\<bar> \<le> \<bar>dt - d'\<bar>" if "d' \<in> set (dates T)" for d'
        using far [OF that] f highgt by simp
      have tie: "high \<le> d'" if "d' \<in> set (dates T)" "\<bar>dt - d'\<bar> = \<bar>dt - high\<bar>" for d'
        using split [OF that(1)] that(2) lowle highgt f by auto
      have "get_values_on T dt = Inr (Some r)" using f w r by (simp add: g)
      with highin r near tie w highgt show ?thesis
        by (intro bexI [of _ high] exI [of _ r]) auto
    qed
  qed
  show ?thesis using none some by blast
qed


theorem get_values_on_bounded_nearest_witness:
  "sorted (dates table_four) \<and> set (dates table_four) \<subseteq> fst ` set (content table_four) \<and>
   1 < length (dates table_four) \<and> dates table_four ! 1 \<le> 149 \<and> 149 < last (dates table_four) \<and>
   (\<exists>d \<in> set (dates table_four). \<bar>149 - d\<bar> < max_error table_four) \<and>
   (\<exists>d \<in> set (dates table_four). \<exists>r.
      \<bar>149 - d\<bar> < max_error table_four \<and>
      (\<forall>d' \<in> set (dates table_four). \<bar>149 - d\<bar> \<le> \<bar>149 - d'\<bar>) \<and>
      (\<forall>d' \<in> set (dates table_four). \<bar>149 - d'\<bar> = \<bar>149 - d\<bar> \<longrightarrow> d \<le> d') \<and>
      map_of (content table_four) d = Some r \<and>
      get_values_on table_four 149 = Inr (Some r))"
proof -
  have h1: "sorted (dates table_four)" by (simp add: table_four_def)
  have h2: "set (dates table_four) \<subseteq> fst ` set (content table_four)"
    by (simp add: table_four_def)
  have h3: "1 < length (dates table_four)" by (simp add: table_four_def)
  have h4: "dates table_four ! 1 \<le> 149" by (simp add: table_four_def)
  have h5: "149 < last (dates table_four)" by (simp add: table_four_def)
  have h6: "\<exists>d \<in> set (dates table_four). \<bar>149 - d\<bar> < max_error table_four"
    by (simp add: table_four_def)
  show ?thesis
    using h1 h2 h3 h4 h5 h6 get_values_on_bounded_nearest [OF h1 h2 h3 h4 h5] by blast
qed

text \<open>
  C3, at a failing input: dates 10 and 20, tolerance 100. The query 5 has no preceding
  date and the following date 10 is 5 seconds away, within the tolerance: the result is
  "not found". The query 25 has no following date and the preceding date 20 is 5 seconds
  away: the lookup raises \<open>TypeError\<close>.
\<close>

theorem get_values_on_no_neighbor_failing:
  "get_values_on table_two 5 = Inr None \<and> get_values_on table_two 25 = Inl TypeError"
  by (simp add: table_two_def get_values_on_def bisect_def bisect_loop.simps)

section \<open>Portfolio.get_balances_from_deltas\<close>

lemma accumulate_prefix_sums:
  "delta_value (last bs) = Known a \<Longrightarrow> \<forall>d \<in> set ds. delta_value d \<noteq> NAN \<Longrightarrow>
   \<exists>rs. accumulate bs ds = Inr (bs @ rs) \<and> length rs = length ds \<and>
     (\<forall>i < length ds. delta_date (rs ! i) = delta_date (ds ! i) \<and>
        delta_value (rs ! i) = Known (a + sum_list (map (\<lambda>d. known_value (delta_value d)) (take (Suc i) ds))))"
proof (induction ds arbitrary: bs a)
  case Nil
  then show ?case by simp
next
  case (Cons d ds)
  from Cons.prems(2) obtain b where b: "delta_value d = Known b"
    by (cases "delta_value d") auto
  let ?n = "\<lparr>delta_date = delta_date d, delta_value = Known (a + b)\<rparr>"
  have step: "accumulate bs (d # ds) = accumulate (bs @ [?n]) ds"
    using Cons.prems(1) b by simp
  have "delta_value (last (bs @ [?n])) = Known (a + b)" by simp
  from Cons.IH [OF this] Cons.prems(2)
  obtain rs where rs: "accumulate (bs @ [?n]) ds = Inr ((bs @ [?n]) @ rs)"
    "length rs = length ds"
    "\<forall>i < length ds. delta_date (rs ! i) = delta_date (ds ! i) \<and>
        delta_value (rs ! i) = Known (a + b + sum_list (map (\<lambda>d. known_value (delta_value d)) (take (Suc i) ds)))"
    by auto
  have "\<forall>i < length (d # ds). delta_date ((?n # rs) ! i) = delta_date ((d # ds) ! i) \<and>
        delta_value ((?n # rs) ! i) =
          Known (a + sum_list (map (\<lambda>d. known_value (delta_value d)) (take (Suc i) (d # ds))))"
  proof (intro allI impI)
    fix i assume i: "i < length (d # ds)"
    show "delta_date ((?n # rs) ! i) = delta_date ((d # ds) ! i) \<and>
        delta_value ((?n # rs) ! i) =
          Known (a + sum_list (map (\<lambda>d. known_value (delta_value d)) (take (Suc i) (d # ds))))"
    proof (cases i)
      case 0
      then show ?thesis by (simp add: b known_value_def)
    next
      case (Suc j)
      with i have "j < length ds" by simp
      with rs(3) Suc show ?thesis by (simp add: b known_value_def add.assoc)
    qed
  qed
  with step rs(1,2) show ?case
    by (intro exI [of _ "?n # rs"]) simp
qed

lemma get_balances_from_deltas_prefix_sums:
  fixes deltas :: "('d::linorder) delta list"
  defines "ds \<equiv> sort_key delta_date (filter (\<lambda>d. delta_value d \<noteq> NAN) deltas)"
  assumes ne: "ds \<noteq> []"
  shows "\<exists>bs. get_balances_from_deltas deltas = Inr bs \<and> length bs = length ds \<and>
     (\<forall>i < length ds. delta_date (bs ! i) = delta_date (ds ! i) \<and>
        delta_value (bs ! i) = Known (sum_list (map (\<lambda>d. known_value (delta_value d)) (take (Suc i) ds))))"
proof -
  from ne obtain d0 rest where ds: "ds = d0 # rest" by (cases ds) auto
  have known: "\<forall>d \<in> set ds. delta_value d \<noteq> NAN" by (simp add: ds_def)
  then obtain a where a: "delta_value d0 = Known a"
    using ds by (cases "delta_value d0") auto
  have "deltas \<noteq> []" using ne by (auto simp: ds_def)
  then have g: "get_balances_from_deltas deltas = accumulate [d0] rest"
    using ds by (simp add: get_balances_from_deltas_def ds_def [symmetric])
  have "delta_value (last [d0]) = Known a" using a by simp
  from accumulate_prefix_sums [OF this, of rest] known ds
  obtain rs where rs: "accumulate [d0] rest = Inr ([d0] @ rs)" "length rs = length rest"
    "\<forall>i < length rest. delta_date (rs ! i) = delta_date (rest ! i) \<and>
        delta_value (rs ! i) = Known (a + sum_list (map (\<lambda>d. known_value (delta_value d)) (take (Suc i) rest)))"
    by auto
  have "\<forall>i < length ds. delta_date ((d0 # rs) ! i) = delta_date (ds ! i) \<and>
        delta_value ((d0 # rs) ! i) = Known (sum_list (map (\<lambda>d. known_value (delta_value d)) (take (Suc i) ds)))"
  proof (intro allI impI)
    fix i assume i: "i < length ds"
    show "delta_date ((d0 # rs) ! i) = delta_date (ds ! i) \<and>
        delta_value ((d0 # rs) ! i) = Known (sum_list (map (\<lambda>d. known_value (delta_value d)) (take (Suc i) ds)))"
    proof (cases i)
      case 0
      then show ?thesis by (simp add: ds a known_value_def)
    next
      case (Suc j)
      with i ds have "j < length rest" by simp
      with rs(3) Suc show ?thesis by (simp add: ds a known_value_def)
    qed
  qed
  with g rs(1,2) ds show ?thesis by (intro exI [of _ "d0 # rs"]) simp
qed

lemma get_balances_from_deltas_example:
  "get_balances_from_deltas
     [mk_delta 3 (Known 3), mk_delta 1 (Known 5), mk_delta 2 NAN, mk_delta 2 (Known (- 2))]
     = Inr [mk_delta 1 (Known 5), mk_delta 2 (Known 3), mk_delta 3 (Known 6)]"
  by (simp add: get_balances_from_deltas_def mk_delta_def)

text \<open>
  C4, at a failing input: a list whose only delta has the value "unknown". Once that delta
  is excluded nothing is left, the series of prefix sums is empty, and the code raises
  \<open>IndexError\<close> on \<open>deltas[0]\<close>.
\<close>

theorem get_balances_from_deltas_all_unknown_failing:
  "get_balances_from_deltas [mk_delta 1 NAN] = Inl IndexError"
  by (simp add: get_balances_from_deltas_def mk_delta_def)

text \<open>
  C5, the claim as stated fails: two deltas with the same date, in the two orders, give
  different series.
\<close>

theorem get_balances_from_deltas_shuffle_counterexample:
  "mset [mk_delta 1 (Known 5), mk_delta 1 (Known (- 2))] =
     mset [mk_delta 1 (Known (- 2)), mk_delta 1 (Known 5)] \<and>
   get_balances_from_deltas [mk_delta 1 (Known 5), mk_delta 1 (Known (- 2))] \<noteq>
     get_balances_from_deltas [mk_delta 1 (Known (- 2)), mk_delta 1 (Known 5)]"
  by (simp add: get_balances_from_deltas_def mk_delta_def)

text \<open>
  C5, as amended. For every list of deltas in which two deltas with a known value and the
  same date are the same delta, and every permutation of that list,
  \<open>get_balances_from_deltas\<close> gives the same result on both.
\<close>


theorem get_balances_from_deltas_perm:
  fixes deltas :: "('d::linorder) delta list"
  assumes p: "mset deltas = mset deltas'"
    and inj: "inj_on delta_date {d \<in> set deltas. delta_value d \<noteq> NAN}"
  shows "get_balances_from_deltas deltas = get_balances_from_deltas deltas'"
proof -
  let ?P = "\<lambda>d::'d delta. delta_value d \<noteq> NAN"
  have e: "deltas = [] \<longleftrightarrow> deltas' = []"
    using p by (metis mset_zero_iff)
  have m: "mset (filter ?P deltas) = mset (sort_key delta_date (filter ?P deltas'))"
    using p by (simp add: mset_filter)
  have i: "inj_on delta_date (set (filter ?P deltas))"
    using inj by (simp add: Collect_conj_eq Int_commute) 
  have "sort_key delta_date (filter ?P deltas) = sort_key delta_date (filter ?P deltas')"
    by (rule sort_key_inj_key_eq [OF m i]) simp
  with e show ?thesis by (simp add: get_balances_from_deltas_def)
qed

theorem get_balances_from_deltas_perm_witness:
  "mset [mk_delta 2 (Known 5), mk_delta 1 (Known (- 2)), mk_delta 1 NAN] =
     mset [mk_delta 1 NAN, mk_delta 1 (Known (- 2)), mk_delta 2 (Known 5)] \<and>
   inj_on delta_date {d \<in> set [mk_delta 2 (Known 5), mk_delta 1 (Known (- 2)), mk_delta 1 NAN].
                        delta_value d \<noteq> NAN} \<and>
   get_balances_from_deltas [mk_delta 2 (Known 5), mk_delta 1 (Known (- 2)), mk_delta 1 NAN] =
     get_balances_from_deltas [mk_delta 1 NAN, mk_delta 1 (Known (- 2)), mk_delta 2 (Known 5)]"
proof -
  have h1: "mset [mk_delta 2 (Known 5), mk_delta 1 (Known (- 2)), mk_delta 1 NAN] =
     mset [mk_delta 1 NAN, mk_delta 1 (Known (- 2)), mk_delta 2 (Known 5)]"
    by (simp add: mk_delta_def)
  have h2: "inj_on delta_date {d \<in> set [mk_delta 2 (Known 5), mk_delta 1 (Known (- 2)), mk_delta 1 NAN].
                        delta_value d \<noteq> NAN}"
    by (auto simp: mk_delta_def inj_on_def)
  show ?thesis using h1 h2 get_balances_from_deltas_perm [OF h1 h2] by blast
qed


section \<open>CryptoExchange.build_wallets\<close>

lemma distinct_get_coins: "distinct (get_coins t)"
  by (simp add: get_coins_def split: option.splits)

lemma add_to_wallets_at:
  "distinct coins \<Longrightarrow>
   add_to_wallets t coins ws c =
     (if c \<in> set coins
      then Some (add_transaction (case ws c of None \<Rightarrow> Wallet_init c | Some w \<Rightarrow> w) t)
      else ws c)"
  by (induction coins arbitrary: ws) (auto simp: Let_def)

lemma build_wallets_loop_at:
  "build_wallets_loop ts ws c =
     (if \<exists>t \<in> set ts. c \<in> set (get_coins t)
      then Some ((case ws c of None \<Rightarrow> Wallet_init c | Some w \<Rightarrow> w)
                   \<lparr>transactions :=
                      transactions (case ws c of None \<Rightarrow> Wallet_init c | Some w \<Rightarrow> w)
                        @ filter (\<lambda>t. c \<in> set (get_coins t)) ts\<rparr>)
      else ws c)"
proof (induction ts arbitrary: ws)
  case Nil
  then show ?case by simp
next
  case (Cons t ts)
  show ?case
    by (simp add: Cons.IH add_to_wallets_at [OF distinct_get_coins] add_transaction_def
        split: option.splits)
qed

lemma build_wallets_only_successful:
  "build_wallets ex c = Some w \<Longrightarrow> t \<in> set (transactions w) \<Longrightarrow> successful t"
  by (auto simp: build_wallets_def get_transactions_def build_wallets_loop_at Wallet_init_def
      split: if_splits)

text \<open>
  C6. For every exchange and every coin: there is a wallet for the coin exactly when some
  successful transaction touches the coin, and that wallet has the coin as its base
  currency and holds, in order, exactly the successful transactions that touch the coin.
\<close>

theorem build_wallets_characterisation:
  "build_wallets ex c =
     (if \<exists>t \<in> set (exchange_transactions ex). successful t \<and> c \<in> set (get_coins t)
      then Some \<lparr>base_currency = c,
                 transactions = filter (\<lambda>t. successful t \<and> c \<in> set (get_coins t))
                                  (exchange_transactions ex)\<rparr>
      else None)"
  by (auto simp: build_wallets_def get_transactions_def build_wallets_loop_at Wallet_init_def
      conj_commute)

theorem build_wallets_characterisation_witness:
  "build_wallets exchange_two ''BTC'' = Some \<lparr>base_currency = ''BTC'', transactions = [trade_ok]\<rparr> \<and>
   build_wallets exchange_two ''USD'' = Some \<lparr>base_currency = ''USD'', transactions = [trade_ok]\<rparr> \<and>
   build_wallets exchange_two ''ETH'' = None \<and>
   build_wallets exchange_two ''EUR'' = None"
  using build_wallets_characterisation [of exchange_two "''BTC''"]
    build_wallets_characterisation [of exchange_two "''USD''"]
    build_wallets_characterisation [of exchange_two "''ETH''"]
    build_wallets_characterisation [of exchange_two "''EUR''"]
  by (simp add: exchange_two_def trade_ok_def trade_failed_def get_coins_def)

section \<open>The exchange adapters\<close>

lemma then_do_Inr_iff:
  "then_do m f = Inr y \<longleftrightarrow> (\<exists>x. m = Inr x \<and> f x = Inr y)"
  by (cases m) (simp_all add: then_do_def)

text \<open>
  C7, the claim as stated fails: a Coinbase record of type \<open>"buy"\<close> with two amounts that
  are not negative is a trade and a deposit, and a Binance record with the three marker
  fields is a trade, a deposit and a withdrawal.
\<close>

theorem Coinbase_trade_and_deposit_counterexample:
  "Coinbase_is_trade coinbase_buy = Inr True \<and>
   Coinbase_is_deposit (\<lambda>s. None) coinbase_buy = Inr True \<and>
   Binance_is_trade binance_all_markers \<and> Binance_is_deposit binance_all_markers \<and>
   Binance_is_withdrawal binance_all_markers"
  by (simp add: coinbase_buy_def Coinbase_is_trade_def Coinbase_is_deposit_def
      Coinbase_amount_def raw_getitem_def getitem_def py_float_def then_do_def
      binance_all_markers_def Binance_is_trade_def Binance_is_deposit_def
      Binance_is_withdrawal_def raw_contains_def)

text \<open>
  C7, as amended. For every raw record: no two of the three predicates of the Bitfinex
  variant hold together, and \<open>is_deposit\<close> and \<open>is_withdrawal\<close> never hold together in the
  Coinbase and GDAX variants. In the Binance variant \<open>get_coins_amounts\<close> tests the
  predicates in the order trade, deposit, withdrawal: a record that is a trade gives the
  tuple of a trade, with a coin on both sides and the amounts \<open>qty\<close> and \<open>price * qty\<close> on
  the sides that \<open>isBuyer\<close> decides, whatever the other two predicates say; a record that
  is no trade and is a deposit gives \<open>(asset, amount, None, 0)\<close>, also when it is a
  withdrawal; a record that is a withdrawal only gives \<open>(None, 0, asset, amount)\<close>; and a
  record that satisfies none of the three gets no class, \<open>(None, 0, None, 0)\<close>.
\<close>

theorem classification_exclusive_pairs:
  "\<not> (Bitfinex_is_trade r = Inr True \<and> Bitfinex_is_deposit r = Inr True) \<and>
   \<not> (Bitfinex_is_trade r = Inr True \<and> Bitfinex_is_withdrawal r = Inr True) \<and>
   \<not> (Bitfinex_is_deposit r = Inr True \<and> Bitfinex_is_withdrawal r = Inr True) \<and>
   \<not> (Coinbase_is_deposit sf r = Inr True \<and> Coinbase_is_withdrawal sf r = Inr True) \<and>
   \<not> (Gdax_is_deposit r = Inr True \<and> Gdax_is_withdrawal r = Inr True) \<and>
   (Binance_is_trade r \<and> raw_getitem r ''symbol'' = Inr (PStr market) \<and>
    then_do (raw_getitem r ''qty'') (py_float sf) = Inr qty \<and>
    then_do (raw_getitem r ''price'') (py_float sf) = Inr price \<and>
    raw_getitem r ''isBuyer'' = Inr is_buyer \<longrightarrow>
      (\<exists>coin_base coin_quote.
         Binance_get_coins_amounts sf r =
           (if py_truthy is_buyer
            then Inr (PStr coin_base, qty, PStr coin_quote, price * qty)
            else Inr (PStr coin_quote, price * qty, PStr coin_base, qty)))) \<and>
   (\<not> Binance_is_trade r \<and> Binance_is_deposit r \<and>
    raw_getitem r ''asset'' = Inr asset \<and>
    then_do (raw_getitem r ''amount'') (py_float sf) = Inr amount \<longrightarrow>
      Binance_get_coins_amounts sf r = Inr (asset, amount, PNone, 0)) \<and>
   (\<not> Binance_is_trade r \<and> \<not> Binance_is_deposit r \<and> Binance_is_withdrawal r \<and>
    raw_getitem r ''asset'' = Inr asset \<and>
    then_do (raw_getitem r ''amount'') (py_float sf) = Inr amount \<longrightarrow>
      Binance_get_coins_amounts sf r = Inr (PNone, 0, asset, amount)) \<and>
   (\<not> Binance_is_trade r \<and> \<not> Binance_is_deposit r \<and> \<not> Binance_is_withdrawal r \<longrightarrow>
      Binance_get_coins_amounts sf r = Inr (PNone, 0, PNone, 0))"
proof -
  have excl:
    "\<not> (Bitfinex_is_trade r = Inr True \<and> Bitfinex_is_deposit r = Inr True) \<and>
     \<not> (Bitfinex_is_trade r = Inr True \<and> Bitfinex_is_withdrawal r = Inr True) \<and>
     \<not> (Bitfinex_is_deposit r = Inr True \<and> Bitfinex_is_withdrawal r = Inr True) \<and>
     \<not> (Coinbase_is_deposit sf r = Inr True \<and> Coinbase_is_withdrawal sf r = Inr True) \<and>
     \<not> (Gdax_is_deposit r = Inr True \<and> Gdax_is_withdrawal r = Inr True)"
    by (auto simp: Bitfinex_is_trade_def Bitfinex_is_deposit_def Bitfinex_is_withdrawal_def
        Coinbase_is_deposit_def Coinbase_is_withdrawal_def Gdax_is_deposit_def
        Gdax_is_withdrawal_def then_do_Inr_iff)
  have trade:
    "\<exists>coin_base coin_quote.
       Binance_get_coins_amounts sf r =
         (if py_truthy is_buyer
          then Inr (PStr coin_base, qty, PStr coin_quote, price * qty)
          else Inr (PStr coin_quote, price * qty, PStr coin_base, qty))"
    if "Binance_is_trade r" "raw_getitem r ''symbol'' = Inr (PStr market)"
      "then_do (raw_getitem r ''qty'') (py_float sf) = Inr qty"
      "then_do (raw_getitem r ''price'') (py_float sf) = Inr price"
      "raw_getitem r ''isBuyer'' = Inr is_buyer"
  proof -
    have "Binance_get_coins_amounts sf r =
         (if py_truthy is_buyer
          then Inr (PStr (take (length market - 3) market), qty,
                    PStr (drop (length market - 3) market), price * qty)
          else Inr (PStr (drop (length market - 3) market), price * qty,
                    PStr (take (length market - 3) market), qty))"
      using that
      by (simp add: Binance_get_coins_amounts_def Binance_trade_coins_amounts_def Let_def
          then_do_def)
    then show ?thesis by blast
  qed
  have deposit: "Binance_get_coins_amounts sf r = Inr (asset, amount, PNone, 0)"
    if "\<not> Binance_is_trade r" "Binance_is_deposit r" "raw_getitem r ''asset'' = Inr asset"
      "then_do (raw_getitem r ''amount'') (py_float sf) = Inr amount"
    using that by (simp add: Binance_get_coins_amounts_def then_do_def)
  have withdrawal: "Binance_get_coins_amounts sf r = Inr (PNone, 0, asset, amount)"
    if "\<not> Binance_is_trade r" "\<not> Binance_is_deposit r" "Binance_is_withdrawal r"
      "raw_getitem r ''asset'' = Inr asset"
      "then_do (raw_getitem r ''amount'') (py_float sf) = Inr amount"
    using that by (simp add: Binance_get_coins_amounts_def then_do_def)
  have none: "Binance_get_coins_amounts sf r = Inr (PNone, 0, PNone, 0)"
    if "\<not> Binance_is_trade r" "\<not> Binance_is_deposit r" "\<not> Binance_is_withdrawal r"
    using that by (simp add: Binance_get_coins_amounts_def)
  show ?thesis using excl trade deposit withdrawal none by blast
qed

theorem classification_exclusive_pairs_witness:
  "Bitfinex_is_withdrawal bitfinex_withdrawal = Inr True \<and>
   Bitfinex_is_trade bitfinex_withdrawal \<noteq> Inr True \<and>
   Bitfinex_is_deposit bitfinex_withdrawal \<noteq> Inr True \<and>
   Binance_is_trade binance_all_markers \<and>
   (\<exists>coin_base coin_quote.
      Binance_get_coins_amounts (\<lambda>s. None) binance_all_markers =
        Inr (PStr coin_base, 2, PStr coin_quote, 3 * 2)) \<and>
   \<not> Binance_is_trade binance_two_markers \<and> Binance_is_deposit binance_two_markers \<and>
   Binance_is_withdrawal binance_two_markers \<and>
   Binance_get_coins_amounts (\<lambda>s. None) binance_two_markers = Inr (PStr ''ETH'', 7, PNone, 0) \<and>
   \<not> Binance_is_trade binance_withdrawal \<and> \<not> Binance_is_deposit binance_withdrawal \<and>
   Binance_is_withdrawal binance_withdrawal \<and>
   Binance_get_coins_amounts (\<lambda>s. None) binance_withdrawal = Inr (PNone, 0, PStr ''ETH'', 7) \<and>
   \<not> Binance_is_trade binance_unmarked \<and> \<not> Binance_is_deposit binance_unmarked \<and>
   \<not> Binance_is_withdrawal binance_unmarked \<and>
   Binance_get_coins_amounts (\<lambda>s. None) binance_unmarked = Inr (PNone, 0, PNone, 0)"
proof -
  have h1: "Bitfinex_is_withdrawal bitfinex_withdrawal = Inr True"
    by (simp add: bitfinex_withdrawal_def Bitfinex_is_withdrawal_def raw_getitem_def then_do_def)
  have t: "Binance_is_trade binance_all_markers"
    "raw_getitem binance_all_markers ''symbol'' = Inr (PStr ''ETHBTC'')"
    "then_do (raw_getitem binance_all_markers ''qty'') (py_float (\<lambda>s. None)) = Inr 2"
    "then_do (raw_getitem binance_all_markers ''price'') (py_float (\<lambda>s. None)) = Inr 3"
    "raw_getitem binance_all_markers ''isBuyer'' = Inr (PBool True)"
    by (simp_all add: binance_all_markers_def Binance_is_trade_def raw_contains_def
        raw_getitem_def then_do_def py_float_def)
  have d: "\<not> Binance_is_trade binance_two_markers" "Binance_is_deposit binance_two_markers"
    "Binance_is_withdrawal binance_two_markers"
    "raw_getitem binance_two_markers ''asset'' = Inr (PStr ''ETH'')"
    "then_do (raw_getitem binance_two_markers ''amount'') (py_float (\<lambda>s. None)) = Inr 7"
    by (simp_all add: binance_two_markers_def Binance_is_trade_def Binance_is_deposit_def
        Binance_is_withdrawal_def raw_contains_def raw_getitem_def then_do_def py_float_def)
  have w: "\<not> Binance_is_trade binance_withdrawal" "\<not> Binance_is_deposit binance_withdrawal"
    "Binance_is_withdrawal binance_withdrawal"
    "raw_getitem binance_withdrawal ''asset'' = Inr (PStr ''ETH'')"
    "then_do (raw_getitem binance_withdrawal ''amount'') (py_float (\<lambda>s. None)) = Inr 7"
    by (simp_all add: binance_withdrawal_def Binance_is_trade_def Binance_is_deposit_def
        Binance_is_withdrawal_def raw_contains_def raw_getitem_def then_do_def py_float_def)
  have n: "\<not> Binance_is_trade binance_unmarked" "\<not> Binance_is_deposit binance_unmarked"
    "\<not> Binance_is_withdrawal binance_unmarked"
    by (simp_all add: binance_unmarked_def Binance_is_trade_def Binance_is_deposit_def
        Binance_is_withdrawal_def raw_contains_def)
  have p: "py_truthy (PBool True)" by (simp add: py_truthy_def)
  show ?thesis
    using h1 t d w n p
      classification_exclusive_pairs [where r = bitfinex_withdrawal and sf = "\<lambda>s. None"]
      classification_exclusive_pairs
        [where r = binance_all_markers and sf = "\<lambda>s. None" and market = "''ETHBTC''"
           and qty = 2 and price = 3 and is_buyer = "PBool True"]
      classification_exclusive_pairs
        [where r = binance_two_markers and sf = "\<lambda>s. None" and asset = "PStr ''ETH''"
           and amount = 7]
      classification_exclusive_pairs
        [where r = binance_withdrawal and sf = "\<lambda>s. None" and asset = "PStr ''ETH''"
           and amount = 7]
      classification_exclusive_pairs [where r = binance_unmarked and sf = "\<lambda>s. None"]
    by simp
qed

lemma Coinbase_get_commission_never_raises:
  "\<exists>c. Coinbase_get_commission parse_iso r = Inr c"
  by (simp add: Coinbase_get_commission_def split: sum.splits)

text \<open>
  C8, at two failing inputs of the Bitfinex variant: on a withdrawal record
  \<open>get_commission\<close> raises \<open>TypeError\<close>, and on a trade record without fee fields it raises
  \<open>KeyError\<close>.
\<close>

theorem Bitfinex_get_commission_failing:
  "Bitfinex_get_commission (\<lambda>s. None) (\<lambda>n. Inr (real_of_int n)) bitfinex_withdrawal
     = Inl TypeError \<and>
   Bitfinex_get_commission (\<lambda>s. None) (\<lambda>n. Inr (real_of_int n)) bitfinex_trade_no_fee
     = Inl KeyError"
  by (simp add: bitfinex_withdrawal_def bitfinex_trade_no_fee_def Bitfinex_get_commission_def
      Bitfinex_get_fee_def Bitfinex_is_trade_def Bitfinex_is_deposit_def
      raw_getitem_def then_do_def)

text \<open>
  C9, at a failing input: a Binance trade of the market \<open>"BTCUSDT"\<close>, quantity 2 at price
  100, as the buyer. The pair is split three characters from the end, into \<open>"BTCU"\<close> and
  \<open>"SDT"\<close>.
\<close>

theorem Binance_usdt_split_failing:
  "Binance_get_coins_amounts (\<lambda>s. None) binance_usdt_trade =
     Inr (PStr ''BTCU'', 2, PStr ''SDT'', 200)"
  by (simp add: binance_usdt_trade_def Binance_get_coins_amounts_def Binance_is_trade_def
      Binance_trade_coins_amounts_def raw_contains_def raw_getitem_def then_do_def
      py_float_def py_truthy_def Let_def)

text \<open>
  C10. For every Bitfinex trade record whose \<open>fee_amount\<close> reads as the float
  \<open>fee_amount\<close>: \<open>is_successful\<close> is true exactly when \<open>fee_amount \<le> 0\<close>; so with a fee
  above zero the trade is reported unsuccessful, and a transaction that carries this
  verdict as its success flag is in no wallet of \<open>build_wallets\<close>, for any exchange.
\<close>


theorem Bitfinex_trade_successful_iff_fee:
  assumes "Bitfinex_is_trade r = Inr True"
    and "then_do (raw_getitem r ''fee_amount'') (py_float sf) = Inr fee_amount"
  shows "Bitfinex_is_successful sf r = Inr (fee_amount \<le> 0) \<and>
         (0 < fee_amount \<longrightarrow>
            Bitfinex_is_successful sf r = Inr False \<and>
            (\<forall>t ex c w. Bitfinex_is_successful sf r = Inr (successful t) \<longrightarrow>
               build_wallets ex c = Some w \<longrightarrow> t \<notin> set (transactions w)))"
proof -
  have s: "Bitfinex_is_successful sf r = Inr (fee_amount \<le> 0)"
    using assms by (simp add: Bitfinex_is_successful_def then_do_def)
  have "t \<notin> set (transactions w)"
    if "0 < fee_amount" "Bitfinex_is_successful sf r = Inr (successful t)"
      "build_wallets ex c = Some w" for t ex c w
  proof
    assume "t \<in> set (transactions w)"
    from build_wallets_only_successful [OF that(3) this] have "successful t" .
    with that(1,2) s show False by simp
  qed
  with s show ?thesis by auto
qed

theorem Bitfinex_trade_successful_iff_fee_witness:
  "Bitfinex_is_trade bitfinex_trade_fee = Inr True \<and>
   then_do (raw_getitem bitfinex_trade_fee ''fee_amount'') (py_float (\<lambda>s. None)) = Inr 2 \<and>
   Bitfinex_is_successful (\<lambda>s. None) bitfinex_trade_fee = Inr False"
proof -
  have h1: "Bitfinex_is_trade bitfinex_trade_fee = Inr True"
    by (simp add: bitfinex_trade_fee_def Bitfinex_is_trade_def raw_getitem_def then_do_def)
  have h2: "then_do (raw_getitem bitfinex_trade_fee ''fee_amount'') (py_float (\<lambda>s. None)) = Inr 2"
    by (simp add: bitfinex_trade_fee_def raw_getitem_def then_do_def py_float_def)
  show ?thesis using h1 h2 Bitfinex_trade_successful_iff_fee [OF h1 h2] by simp
qed

end
